theory Spec2Isabelle
  imports Main "HOL-Library.AList" "HOL-Library.Multiset" "HOL-Library.Sublist"
    "HOL-Library.Char_ord" "HOL-Library.List_Lexorder"
begin

section \<open>ObjectDB: values, documents and the Go library the code calls\<close>

text \<open>
  A document is Go's \<open>map[string]interface{}\<close> as \<open>encoding/json\<close> produces it: the values
  are nil, bool, float64, string, \<open>[]interface{}\<close> and nested maps. A map is kept as an
  association list; the order of the list stands for the order in which a \<open>range\<close> loop
  visits the map, which Go leaves unspecified, so a statement about every document covers
  every iteration order. A nil map reads like the empty map and is written \<open>[]\<close>.
  The type \<open>'n\<close> is the type of numbers (float64); only its comparison operators are used.
\<close>

datatype 'n val =
    VNil
  | VBool bool
  | VNum 'n
  | VStr string
  | VArr "'n val list"
  | VMap "(string \<times> 'n val) list"

type_synonym 'n Document = "(string \<times> 'n val) list"

text \<open>
  The functions of the Go standard library and of the Snowball stemmer that the code
  calls and that are not part of the repository are taken as parameters:
  \<open>fmtNum\<close> is \<open>fmt.Sprintf("%v", x)\<close> on a number, \<open>parseFloat\<close> is
  \<open>strconv.ParseFloat(s, 64)\<close> (\<open>None\<close> for its error), \<open>isLetter\<close> and \<open>isNumber\<close> are
  \<open>unicode.IsLetter\<close> and \<open>unicode.IsNumber\<close>, \<open>toLower\<close> is \<open>strings.ToLower\<close> and
  \<open>stem\<close> is \<open>snowballeng.Stem(token, false)\<close>.
\<close>

record 'n golib =
  fmtNum :: "'n \<Rightarrow> string"
  parseFloat :: "string \<Rightarrow> 'n option"
  isLetter :: "char \<Rightarrow> bool"
  isNumber :: "char \<Rightarrow> bool"
  toLower :: "string \<Rightarrow> string"
  stem :: "string \<Rightarrow> string"

text \<open>\<open>strings.Split(s, sep)\<close> for a one-character separator: never the empty list;
  \<open>strings.Split("", sep)\<close> is the list holding the empty string.\<close>

fun split_on :: "char \<Rightarrow> string \<Rightarrow> string list" where
  "split_on c [] = [[]]"
| "split_on c (x # xs) =
     (if x = c then [] # split_on c xs
      else (case split_on c xs of
              [] \<Rightarrow> [[x]]
            | w # ws \<Rightarrow> (x # w) # ws))"

text \<open>\<open>strings.Join(elems, sep)\<close>.\<close>

fun join :: "string \<Rightarrow> string list \<Rightarrow> string" where
  "join sep [] = []"
| "join sep [x] = x"
| "join sep (x # y # ys) = x @ sep @ join sep (y # ys)"

text \<open>\<open>fmt.Sprintf("%v", v)\<close>: nil prints as \<open><nil>\<close>, a string as itself, a slice as
  \<open>[a b]\<close>, a map as \<open>map[k:v]\<close> with its keys sorted.\<close>

fun sprintf_v :: "'n golib \<Rightarrow> 'n val \<Rightarrow> string" where
  "sprintf_v E VNil = ''<nil>''"
| "sprintf_v E (VBool b) = (if b then ''true'' else ''false'')"
| "sprintf_v E (VNum n) = fmtNum E n"
| "sprintf_v E (VStr s) = s"
| "sprintf_v E (VArr xs) = ''['' @ join '' '' (map (sprintf_v E) xs) @ '']''"
| "sprintf_v E (VMap m) =
     ''map['' @ join '' '' (map (\<lambda>ks. fst ks @ '':'' @ snd ks)
        (sort_key fst (map (\<lambda>kv. (fst kv, sprintf_v E (snd kv))) m))) @ '']''"

section \<open>Queries and the predicate matcher\<close>

record 'n Condition =
  Path :: string
  Operator :: string
  Value :: "'n val"

text \<open>One element of \<open>Query\<close>: the struct with fields \<open>Operator\<close> (here \<open>TopOperator\<close>,
  the name \<open>Operator\<close> being taken by \<open>Condition\<close>) and \<open>Operands\<close>.\<close>

record 'n TopOperand =
  TopOperator :: string
  Operands :: "'n Condition list"

type_synonym 'n Query = "'n TopOperand list"

definition EQ :: string where "EQ = ''=''"
definition NE :: string where "NE = ''!=''"
definition GT :: string where "GT = ''>''"
definition GTE :: string where "GTE = ''>=''"
definition LT :: string where "LT = ''<''"
definition LTE :: string where "LTE = ''<=''"

text \<open>The loop of \<open>getValueFromPath\<close> over the parts of the path. \<open>v[part]\<close> on a map
  without the key is nil; nothing else is checked. \<open>None\<close> is the return \<open>(nil, false)\<close>.\<close>

fun walkPath :: "'n val \<Rightarrow> string list \<Rightarrow> 'n val option" where
  "walkPath docSegment [] = Some docSegment"
| "walkPath docSegment (part # parts) =
     (case docSegment of
        VMap v \<Rightarrow> walkPath (case map_of v part of None \<Rightarrow> VNil | Some x \<Rightarrow> x) parts
      | _ \<Rightarrow> None)"

definition getValueFromPath :: "'n Document \<Rightarrow> string \<Rightarrow> 'n val option" where
  "getValueFromPath document path = walkPath (VMap document) (split_on CHR ''.'' path)"

text \<open>The type switch of \<open>matchCondition\<close> that coerces the document's value to float64.\<close>

definition toFloat :: "'n golib \<Rightarrow> 'n val \<Rightarrow> 'n option" where
  "toFloat E v =
     (case v of
        VNum x \<Rightarrow> Some x
      | VStr s \<Rightarrow> parseFloat E s
      | _ \<Rightarrow> None)"

definition matchCondition :: "('n::ord) golib \<Rightarrow> 'n Document \<Rightarrow> 'n Condition \<Rightarrow> bool" where
  "matchCondition E document condition =
     (case getValueFromPath document (Path condition) of
        None \<Rightarrow> False
      | Some v \<Rightarrow>
          if Operator condition = EQ then sprintf_v E v = sprintf_v E (Value condition)
          else if Operator condition = NE then sprintf_v E v \<noteq> sprintf_v E (Value condition)
          else (case parseFloat E (sprintf_v E (Value condition)) of
                  None \<Rightarrow> False
                | Some right \<Rightarrow>
                    (case toFloat E v of
                       None \<Rightarrow> False
                     | Some left \<Rightarrow>
                         if Operator condition = GT then left > right
                         else if Operator condition = GTE then left \<ge> right
                         else if Operator condition = LT then left < right
                         else if Operator condition = LTE then left \<le> right
                         else False)))"

text \<open>\<open>matchQuery\<close>: the top level is a conjunction; a group whose operator is \<open>OR\<close> needs one
  matching operand, any other group needs all of them.\<close>

definition matchTopOperand :: "('n::ord) golib \<Rightarrow> 'n Document \<Rightarrow> 'n TopOperand \<Rightarrow> bool" where
  "matchTopOperand E document topOperand =
     (if TopOperator topOperand = ''OR''
      then list_ex (matchCondition E document) (Operands topOperand)
      else list_all (matchCondition E document) (Operands topOperand))"

definition matchQuery :: "('n::ord) golib \<Rightarrow> 'n Document \<Rightarrow> 'n Query \<Rightarrow> bool" where
  "matchQuery E document query = list_all (matchTopOperand E document) query"

section \<open>The three key-value stores\<close>

text \<open>
  Each Pebble store is an association list from keys to values. \<open>Get\<close> is \<open>map_of\<close>,
  \<open>Set\<close> is \<open>AList.update\<close>, \<open>Delete\<close> is \<open>AList.delete\<close>, and an iterator visits the
  entries in the byte order of their keys. Failures of the store itself (I/O errors) are
  not modelled, so the functions that can only fail through them return plain values.
  The primary store keeps the documents decoded: \<open>encoding/json\<close> is outside the
  repository, and a stored value stands for the map \<open>json.Unmarshal\<close> gives back.
\<close>

record 'n DB =
  store :: "(string \<times> 'n Document) list"
  index :: "(string \<times> string) list"
  fts :: "(string \<times> string) list"

datatype err = ErrDuplicateKey | ErrNoDocuments | ErrDocumentNotExists | ErrEncoding | RuntimePanic

definition pebbleIter :: "(string \<times> 'v) list \<Rightarrow> (string \<times> 'v) list" where
  "pebbleIter kv = sort_key fst kv"

text \<open>The bytes a \<open>Get\<close> yields: the nil slice (of length 0) when the key is not found.\<close>

definition getBytes :: "(string \<times> string) list \<Rightarrow> string \<Rightarrow> string" where
  "getBytes kv key = (case map_of kv key of None \<Rightarrow> [] | Some b \<Rightarrow> b)"

definition getDocumentKey :: "string \<Rightarrow> string \<Rightarrow> string" where
  "getDocumentKey collectionName ident = collectionName @ '':'' @ ident"

definition getIndexKey :: "string \<Rightarrow> string \<Rightarrow> string" where
  "getIndexKey collectionName pathValue = collectionName @ '':'' @ pathValue"

section \<open>The secondary (path-value) index\<close>

definition buildPathValue :: "'n golib \<Rightarrow> string \<Rightarrow> 'n val \<Rightarrow> string" where
  "buildPathValue E path v = path @ ''='' @ sprintf_v E v"

text \<open>\<open>getPathValues\<close>: \<open>_id\<close> is deleted from the map, then every entry is visited. A nested
  map recurses with \<open>key\<close> as the prefix (the prefix of the enclosing call is prepended
  only after the type switch, on the scalar branch); a slice is skipped. The parameter
  \<open>prefix\<close> of the source is written \<open>pfx\<close>.\<close>

function getPathValues :: "'n golib \<Rightarrow> 'n Document \<Rightarrow> string \<Rightarrow> string list" where
  "getPathValues E document pfx =
     concat (map (\<lambda>kv.
        (case snd kv of
           VMap v \<Rightarrow> getPathValues E v (fst kv)
         | VArr _ \<Rightarrow> []
         | _ \<Rightarrow> [buildPathValue E (if pfx \<noteq> [] then pfx @ ''.'' @ fst kv else fst kv) (snd kv)]))
        (AList.delete ''_id'' document))"
  by pat_completeness auto
termination
proof (relation "measure (\<lambda>(E, d, p). size_list (size_prod (\<lambda>_. 0) size) d)")
  show "wf (measure (\<lambda>(E, d, p). size_list (size_prod (\<lambda>_. 0) size) d))" by simp
next
  fix E :: "'n golib" and document :: "'n Document" and pfx :: string
    and kv :: "string \<times> 'n val" and v :: "'n Document"
  assume mem: "kv \<in> set (AList.delete ''_id'' document)" and isMap: "snd kv = VMap v"
  from mem have "kv \<in> set document" by (auto simp: AList.delete_eq)
  then have "size_prod (\<lambda>_. 0) size kv \<le> size_list (size_prod (\<lambda>_. 0) size) document"
    by (simp add: size_list_estimation')
  moreover from isMap have "size_list (size_prod (\<lambda>_. 0) size) v < size_prod (\<lambda>_. 0) size kv"
    by (cases kv) simp
  ultimately show "((E, v, fst kv), (E, document, pfx))
      \<in> measure (\<lambda>(E, d, p). size_list (size_prod (\<lambda>_. 0) size) d)"
    by simp
qed

text \<open>The update of one posting list on insert, as \<open>indexDocument\<close> and \<open>AddToIndex\<close> both
  write it: an absent or empty list becomes the id; otherwise the id is appended after a
  comma unless the split list already holds it.\<close>

definition addId :: "string \<Rightarrow> string \<Rightarrow> string" where
  "addId ident idsString =
     (if length idsString = 0 then ident
      else if ident \<in> set (split_on CHR '','' idsString) then idsString
      else idsString @ '','' @ ident)"

fun indexLoop :: "string \<Rightarrow> string \<Rightarrow> string list \<Rightarrow> (string \<times> string) list \<Rightarrow> (string \<times> string) list" where
  "indexLoop collectionName ident [] idx = idx"
| "indexLoop collectionName ident (pathValue # pv) idx =
     (let indexKey = getIndexKey collectionName pathValue;
          idsString = addId ident (getBytes idx indexKey)
      in indexLoop collectionName ident pv (AList.update indexKey idsString idx))"

definition indexDocument ::
  "'n golib \<Rightarrow> (string \<times> string) list \<Rightarrow> string \<Rightarrow> string \<Rightarrow> 'n Document \<Rightarrow> (string \<times> string) list" where
  "indexDocument E idx collectionName ident document =
     indexLoop collectionName ident (getPathValues E document []) idx"

text \<open>The ids left in a posting list once \<open>ident\<close> is removed (\<open>newIds\<close>).\<close>

definition newIds :: "string \<Rightarrow> string \<Rightarrow> string list" where
  "newIds ident idsString = filter (\<lambda>existingId. ident \<noteq> existingId) (split_on CHR '','' idsString)"

text \<open>The loop of \<open>deleteDocumentFromIndex\<close>. When a posting list is absent or empty the
  function returns at once (\<open>return nil\<close>), leaving the remaining path values alone.\<close>

fun deindexLoop :: "string \<Rightarrow> string \<Rightarrow> string list \<Rightarrow> (string \<times> string) list \<Rightarrow> (string \<times> string) list" where
  "deindexLoop collectionName ident [] idx = idx"
| "deindexLoop collectionName ident (pathValue # pv) idx =
     (let indexKey = getIndexKey collectionName pathValue;
          idsString = getBytes idx indexKey
      in if length idsString = 0 then idx
         else if newIds ident idsString = []
           then deindexLoop collectionName ident pv (AList.delete indexKey idx)
           else deindexLoop collectionName ident pv
                  (AList.update indexKey (join '','' (newIds ident idsString)) idx))"

definition deleteDocumentFromIndex ::
  "'n golib \<Rightarrow> (string \<times> string) list \<Rightarrow> string \<Rightarrow> string \<Rightarrow> 'n Document \<Rightarrow> (string \<times> string) list" where
  "deleteDocumentFromIndex E idx collectionName ident document =
     deindexLoop collectionName ident (getPathValues E document []) idx"

section \<open>Text analysis and the inverted index (package fts)\<close>

text \<open>\<open>strings.FieldsFunc(text, f)\<close>: the maximal runs of characters on which \<open>f\<close> is false;
  \<open>cur\<close> is the field being read.\<close>

fun fieldsFunc :: "(char \<Rightarrow> bool) \<Rightarrow> string \<Rightarrow> string \<Rightarrow> string list" where
  "fieldsFunc f cur [] = (if cur = [] then [] else [cur])"
| "fieldsFunc f cur (r # rs) =
     (if f r then (if cur = [] then [] else [cur]) @ fieldsFunc f [] rs
      else fieldsFunc f (cur @ [r]) rs)"

definition tokenize :: "'n golib \<Rightarrow> string \<Rightarrow> string list" where
  "tokenize E text = fieldsFunc (\<lambda>r. \<not> isLetter E r \<and> \<not> isNumber E r) [] text"

definition lowercaseFilter :: "'n golib \<Rightarrow> string list \<Rightarrow> string list" where
  "lowercaseFilter E tokens = map (toLower E) tokens"

definition stopwords :: "string list" where
  "stopwords = [''a'', ''and'', ''be'', ''have'', ''i'', ''in'', ''of'', ''that'', ''the'', ''to'']"

definition stopwordFilter :: "string list \<Rightarrow> string list" where
  "stopwordFilter tokens = filter (\<lambda>token. token \<notin> set stopwords) tokens"

definition stemmerFilter :: "'n golib \<Rightarrow> string list \<Rightarrow> string list" where
  "stemmerFilter E tokens = map (stem E) tokens"

definition analyze :: "'n golib \<Rightarrow> string \<Rightarrow> string list" where
  "analyze E text = stemmerFilter E (stopwordFilter (lowercaseFilter E (tokenize E text)))"

text \<open>
  What \<open>InsertOne\<close> is given, an \<open>interface{}\<close>, as the two libraries that inspect it see it:
  \<open>jsonForm\<close> is the map that \<open>json.Marshal\<close> followed by \<open>json.Unmarshal\<close> yields (\<open>None\<close>
  when either returns an error), the normalized form of the record; \<open>structFields\<close> is what
  \<open>reflect\<close> shows, \<open>None\<close> when the value is not a struct (\<open>NumField\<close> panics), otherwise
  for each field in order its \<open>objectdb\<close> tag and its value when that is a Go \<open>string\<close>
  (the assertion \<open>fieldValue.(string)\<close> panics on anything else).
\<close>

record 'n GoValue =
  jsonForm :: "'n Document option"
  structFields :: "(string \<times> string option) list option"

text \<open>The loop over the tokens of one field in \<open>AddToIndex\<close>.\<close>

fun addTokens :: "string \<Rightarrow> string \<Rightarrow> string list \<Rightarrow> (string \<times> string) list \<Rightarrow> (string \<times> string) list" where
  "addTokens collectionName ident [] textIndex = textIndex"
| "addTokens collectionName ident (token # tokens) textIndex =
     (let indexKey = getIndexKey collectionName token;
          idsString = addId ident (getBytes textIndex indexKey)
      in addTokens collectionName ident tokens (AList.update indexKey idsString textIndex))"

text \<open>The loop over the parts of one field's tag, split at \<open>;\<close>.\<close>

fun tagLoop :: "'n golib \<Rightarrow> string \<Rightarrow> string \<Rightarrow> string option \<Rightarrow> string list
    \<Rightarrow> (string \<times> string) list \<Rightarrow> err + (string \<times> string) list" where
  "tagLoop E collectionName ident fieldValue [] textIndex = Inr textIndex"
| "tagLoop E collectionName ident fieldValue (tag # tagValues) textIndex =
     (if tag = ''textIndex''
      then (case fieldValue of
              None \<Rightarrow> Inl RuntimePanic
            | Some s \<Rightarrow> tagLoop E collectionName ident fieldValue tagValues
                          (addTokens collectionName ident (analyze E s) textIndex))
      else tagLoop E collectionName ident fieldValue tagValues textIndex)"

fun fieldLoop :: "'n golib \<Rightarrow> string \<Rightarrow> string \<Rightarrow> (string \<times> string option) list
    \<Rightarrow> (string \<times> string) list \<Rightarrow> err + (string \<times> string) list" where
  "fieldLoop E collectionName ident [] textIndex = Inr textIndex"
| "fieldLoop E collectionName ident ((tagValue, fieldValue) # flds) textIndex =
     (case tagLoop E collectionName ident fieldValue (split_on CHR '';'' tagValue) textIndex of
        Inl e \<Rightarrow> Inl e
      | Inr textIndex' \<Rightarrow> fieldLoop E collectionName ident flds textIndex')"

definition AddToIndex :: "'n golib \<Rightarrow> (string \<times> string) list \<Rightarrow> string \<Rightarrow> string \<Rightarrow> 'n GoValue
    \<Rightarrow> err + (string \<times> string) list" where
  "AddToIndex E textIndex collectionName ident document =
     (case structFields document of
        None \<Rightarrow> Inl RuntimePanic
      | Some flds \<Rightarrow> fieldLoop E collectionName ident flds textIndex)"

text \<open>The loop over the tokens of one field in \<open>DeleteFromIndex\<close>: an absent or empty
  posting list is skipped (\<open>continue\<close>).\<close>

fun removeTokens :: "string \<Rightarrow> string \<Rightarrow> string list \<Rightarrow> (string \<times> string) list \<Rightarrow> (string \<times> string) list" where
  "removeTokens collectionName ident [] textIndex = textIndex"
| "removeTokens collectionName ident (token # tokens) textIndex =
     (let indexKey = getIndexKey collectionName token;
          idsString = getBytes textIndex indexKey
      in if length idsString = 0 then removeTokens collectionName ident tokens textIndex
         else if newIds ident idsString = []
           then removeTokens collectionName ident tokens (AList.delete indexKey textIndex)
           else removeTokens collectionName ident tokens
                  (AList.update indexKey (join '','' (newIds ident idsString)) textIndex))"

text \<open>\<open>DeleteFromIndex\<close> visits every top-level field value of the map it is given.
  \<open>reflect.TypeOf(fieldValue)\<close> is the nil \<open>Type\<close> for a nil value, and calling \<open>Kind\<close> on it
  is a nil dereference; a value of any kind but string is skipped.\<close>

fun DeleteFromIndex :: "'n golib \<Rightarrow> (string \<times> string) list \<Rightarrow> string \<Rightarrow> string \<Rightarrow> 'n Document
    \<Rightarrow> err + (string \<times> string) list" where
  "DeleteFromIndex E textIndex collectionName ident [] = Inr textIndex"
| "DeleteFromIndex E textIndex collectionName ident ((fieldName, fieldValue) # document) =
     (case fieldValue of
        VNil \<Rightarrow> Inl RuntimePanic
      | VStr s \<Rightarrow> DeleteFromIndex E
                   (removeTokens collectionName ident (analyze E s) textIndex)
                   collectionName ident document
      | _ \<Rightarrow> DeleteFromIndex E textIndex collectionName ident document)"

text \<open>\<open>intersection(a, b)\<close>: the items of \<open>b\<close>, in the order of \<open>b\<close>, that are keys of the map
  built from \<open>a\<close>.\<close>

definition intersection :: "string list \<Rightarrow> string list \<Rightarrow> string list" where
  "intersection a b = filter (\<lambda>item. item \<in> set a) b"

text \<open>The loop of \<open>fts.Search\<close> over the tokens; \<open>matchedIds\<close> starts as the nil slice.\<close>

fun searchLoop :: "string \<Rightarrow> (string \<times> string) list \<Rightarrow> string list \<Rightarrow> string list \<Rightarrow> string list" where
  "searchLoop collectionName textIndex [] matchedIds = matchedIds"
| "searchLoop collectionName textIndex (token # tokens) matchedIds =
     (let idsString = getBytes textIndex (getIndexKey collectionName token)
      in if length idsString = 0 then searchLoop collectionName textIndex tokens matchedIds
         else (let ids = split_on CHR '','' idsString
               in if length matchedIds = 0
                  then searchLoop collectionName textIndex tokens ids
                  else searchLoop collectionName textIndex tokens (intersection matchedIds ids)))"

definition ftsSearch :: "'n golib \<Rightarrow> (string \<times> string) list \<Rightarrow> string \<Rightarrow> string \<Rightarrow> string list" where
  "ftsSearch E textIndex collectionName text = searchLoop collectionName textIndex (analyze E text) []"

section \<open>Insert, find by id, delete\<close>

text \<open>\<open>InsertOne\<close>; the id that \<open>uuid.New().String()\<close> draws is the parameter \<open>ident\<close>.
  The document is written to the store with its \<open>_id\<close> before \<open>indexDocument\<close> runs.\<close>

definition InsertOne :: "'n golib \<Rightarrow> 'n DB \<Rightarrow> string \<Rightarrow> string \<Rightarrow> 'n GoValue \<Rightarrow> err + (string \<times> 'n DB)" where
  "InsertOne E db collectionName ident document =
     (case jsonForm document of
        None \<Rightarrow> Inl ErrEncoding
      | Some m \<Rightarrow>
          (let documentMap = AList.update ''_id'' (VStr ident) m;
               key = getDocumentKey collectionName ident
           in if map_of (store db) key \<noteq> None then Inl ErrDuplicateKey
              else (let db1 = db\<lparr>store := AList.update key documentMap (store db)\<rparr>;
                        db2 = db1\<lparr>index := indexDocument E (index db1) collectionName ident documentMap\<rparr>
                    in (case AddToIndex E (fts db2) collectionName ident document of
                          Inl e \<Rightarrow> Inl e
                        | Inr textIndex \<Rightarrow> Inr (ident, db2\<lparr>fts := textIndex\<rparr>)))))"

definition FindOneById :: "'n DB \<Rightarrow> string \<Rightarrow> string \<Rightarrow> err + 'n Document" where
  "FindOneById db collectionName ident =
     (case map_of (store db) (getDocumentKey collectionName ident) of
        None \<Rightarrow> Inl ErrDocumentNotExists
      | Some document \<Rightarrow> Inr document)"

text \<open>\<open>DeleteOneById\<close>. \<open>getPathValues\<close>, run by \<open>deleteDocumentFromIndex\<close>, deletes \<open>_id\<close> from
  the map it is given, and a Go map is shared with the caller: \<open>DeleteFromIndex\<close> receives
  the document without its \<open>_id\<close>. (Nested maps lose theirs as well, which
  \<open>DeleteFromIndex\<close>, reading top-level values only, cannot see.)\<close>

definition DeleteOneById :: "'n golib \<Rightarrow> 'n DB \<Rightarrow> string \<Rightarrow> string \<Rightarrow> err + 'n DB" where
  "DeleteOneById E db collectionName ident =
     (let key = getDocumentKey collectionName ident
      in (case FindOneById db collectionName ident of
            Inl e \<Rightarrow> Inl e
          | Inr document \<Rightarrow>
              (let idx = deleteDocumentFromIndex E (index db) collectionName ident document
               in (case DeleteFromIndex E (fts db) collectionName ident (AList.delete ''_id'' document) of
                     Inl e \<Rightarrow> Inl e
                   | Inr textIndex \<Rightarrow>
                       Inr (db\<lparr>index := idx, fts := textIndex, store := AList.delete key (store db)\<rparr>)))))"

section \<open>FindMany\<close>

record Options =
  Limit :: int

text \<open>The classification at the head of \<open>FindMany\<close>. \<open>orHasNonEQ\<close> is the first inner loop
  (run for an \<open>OR\<close> group), \<open>foundEQ\<close> the second (run for every group); \<open>classifyLoop\<close> is
  the outer loop carrying \<open>fallbackToFullScan\<close>, left by \<open>break\<close> when no \<open>=\<close> is found.\<close>

definition orHasNonEQ :: "'n Condition list \<Rightarrow> bool" where
  "orHasNonEQ operands = list_ex (\<lambda>operand. Operator operand \<noteq> EQ) operands"

definition foundEQ :: "'n Condition list \<Rightarrow> bool" where
  "foundEQ operands = list_ex (\<lambda>operand. Operator operand = EQ) operands"

fun classifyLoop :: "'n Query \<Rightarrow> bool \<Rightarrow> bool" where
  "classifyLoop [] fallback = fallback"
| "classifyLoop (topOperand # query) fallback =
     (let fallback1 = (if TopOperator topOperand = ''OR'' \<and> orHasNonEQ (Operands topOperand)
                       then True else fallback)
      in if \<not> foundEQ (Operands topOperand) then True
         else classifyLoop query fallback1)"

definition fallbackToFullScan :: "'n Query \<Rightarrow> bool" where
  "fallbackToFullScan query = (if length query > 0 then classifyLoop query False else True)"

text \<open>The ids read for one \<open>=\<close> operand: the bytes at the index key, converted to a string
  and split at commas, with no test of their length.\<close>

definition operandIds :: "'n golib \<Rightarrow> (string \<times> string) list \<Rightarrow> string \<Rightarrow> 'n Condition \<Rightarrow> string list" where
  "operandIds E idx collectionName operand =
     split_on CHR '','' (getBytes idx
       (getIndexKey collectionName
          (buildPathValue E (Path operand) (VStr (sprintf_v E (Value operand))))))"

text \<open>\<open>idsConditionCount[id]++\<close>, entering the id with 0 first when it is new. The counting
  map and \<open>matchedIdsInOr\<close> are association lists; their order stands for the order in
  which \<open>range\<close> visits them.\<close>

definition countId :: "string \<Rightarrow> (string \<times> int) list \<Rightarrow> (string \<times> int) list" where
  "countId ident idsConditionCount =
     AList.update ident ((case map_of idsConditionCount ident of None \<Rightarrow> 0 | Some c \<Rightarrow> c) + 1)
       idsConditionCount"

fun orLoop :: "'n golib \<Rightarrow> (string \<times> string) list \<Rightarrow> string \<Rightarrow> 'n Condition list
    \<Rightarrow> (string \<times> bool) list \<Rightarrow> (string \<times> bool) list" where
  "orLoop E idx collectionName [] matchedIdsInOr = matchedIdsInOr"
| "orLoop E idx collectionName (operand # operands) matchedIdsInOr =
     orLoop E idx collectionName operands
       (fold (\<lambda>ident m. AList.update ident True m) (operandIds E idx collectionName operand) matchedIdsInOr)"

fun andLoop :: "'n golib \<Rightarrow> (string \<times> string) list \<Rightarrow> string \<Rightarrow> 'n Condition list
    \<Rightarrow> (string \<times> int) list \<times> int \<Rightarrow> (string \<times> int) list \<times> int" where
  "andLoop E idx collectionName [] (idsConditionCount, nonRangeConditionCount) =
     (idsConditionCount, nonRangeConditionCount)"
| "andLoop E idx collectionName (operand # operands) (idsConditionCount, nonRangeConditionCount) =
     (if Operator operand = EQ
      then andLoop E idx collectionName operands
             (fold countId (operandIds E idx collectionName operand) idsConditionCount,
              nonRangeConditionCount + 1)
      else andLoop E idx collectionName operands (idsConditionCount, nonRangeConditionCount))"

fun countLoop :: "'n golib \<Rightarrow> (string \<times> string) list \<Rightarrow> string \<Rightarrow> 'n Query
    \<Rightarrow> (string \<times> int) list \<times> int \<Rightarrow> (string \<times> int) list \<times> int" where
  "countLoop E idx collectionName [] (idsConditionCount, nonRangeConditionCount) =
     (idsConditionCount, nonRangeConditionCount)"
| "countLoop E idx collectionName (topOperand # query) (idsConditionCount, nonRangeConditionCount) =
     (if TopOperator topOperand = ''OR''
      then countLoop E idx collectionName query
             (fold countId (map fst (orLoop E idx collectionName (Operands topOperand) [])) idsConditionCount,
              nonRangeConditionCount + 1)
      else countLoop E idx collectionName query
             (andLoop E idx collectionName (Operands topOperand) (idsConditionCount, nonRangeConditionCount)))"

definition allMatchedIdsFromIndex :: "'n golib \<Rightarrow> (string \<times> string) list \<Rightarrow> string \<Rightarrow> 'n Query \<Rightarrow> string list" where
  "allMatchedIdsFromIndex E idx collectionName query =
     (case countLoop E idx collectionName query ([], 0) of
        (idsConditionCount, nonRangeConditionCount) \<Rightarrow>
          map fst (filter (\<lambda>ic. snd ic = nonRangeConditionCount) idsConditionCount))"

text \<open>The loop over the candidates. The error \<open>ErrDocumentNotExists\<close> of \<open>FindOneById\<close> is
  ignored and the nil document it comes with is matched like any other.\<close>

fun verifyLoop :: "('n::ord) golib \<Rightarrow> 'n DB \<Rightarrow> string \<Rightarrow> 'n Query \<Rightarrow> Options \<Rightarrow> string list
    \<Rightarrow> 'n Document list \<Rightarrow> 'n Document list" where
  "verifyLoop E db collectionName query options [] documents = documents"
| "verifyLoop E db collectionName query options (ident # ids) documents =
     (let document = (case FindOneById db collectionName ident of Inl e \<Rightarrow> [] | Inr d \<Rightarrow> d)
      in if matchQuery E document query
         then (if Limit options > 0 \<and> int (length (documents @ [document])) \<ge> Limit options
               then documents @ [document]
               else verifyLoop E db collectionName query options ids (documents @ [document]))
         else verifyLoop E db collectionName query options ids documents)"

text \<open>The loop of the full scan over the entries of the primary store.\<close>

fun scanLoop :: "('n::ord) golib \<Rightarrow> string \<Rightarrow> 'n Query \<Rightarrow> Options \<Rightarrow> (string \<times> 'n Document) list
    \<Rightarrow> 'n Document list \<Rightarrow> 'n Document list" where
  "scanLoop E collectionName query options [] documents = documents"
| "scanLoop E collectionName query options ((key, document) # rest) documents =
     (if hd (split_on CHR '':'' key) \<noteq> collectionName
      then scanLoop E collectionName query options rest documents
      else if matchQuery E document query
         then (if Limit options > 0 \<and> int (length (documents @ [document])) \<ge> Limit options
               then documents @ [document]
               else scanLoop E collectionName query options rest (documents @ [document]))
         else scanLoop E collectionName query options rest documents)"

definition indexAssisted :: "('n::ord) golib \<Rightarrow> 'n DB \<Rightarrow> string \<Rightarrow> 'n Query \<Rightarrow> Options \<Rightarrow> 'n Document list" where
  "indexAssisted E db collectionName query options =
     verifyLoop E db collectionName query options
       (allMatchedIdsFromIndex E (index db) collectionName query) []"

definition fullScan :: "('n::ord) golib \<Rightarrow> 'n DB \<Rightarrow> string \<Rightarrow> 'n Query \<Rightarrow> Options \<Rightarrow> 'n Document list" where
  "fullScan E db collectionName query options =
     scanLoop E collectionName query options (pebbleIter (store db)) []"

definition FindMany :: "('n::ord) golib \<Rightarrow> 'n DB \<Rightarrow> string \<Rightarrow> 'n Query \<Rightarrow> Options \<Rightarrow> 'n Document list" where
  "FindMany E db collectionName query options =
     (if \<not> fallbackToFullScan query
      then indexAssisted E db collectionName query options
      else fullScan E db collectionName query options)"

section \<open>Full-text search\<close>

fun loadLoop :: "'n DB \<Rightarrow> string \<Rightarrow> string list \<Rightarrow> 'n Document list \<Rightarrow> err + 'n Document list" where
  "loadLoop db collectionName [] documents = Inr documents"
| "loadLoop db collectionName (ident # documentIds) documents =
     (case FindOneById db collectionName ident of
        Inl e \<Rightarrow> Inl e
      | Inr document \<Rightarrow> loadLoop db collectionName documentIds (documents @ [document]))"

definition Search :: "'n golib \<Rightarrow> 'n DB \<Rightarrow> string \<Rightarrow> string \<Rightarrow> err + 'n Document list" where
  "Search E db collectionName text =
     loadLoop db collectionName (ftsSearch E (fts db) collectionName text) []"

section \<open>The specification's own notions\<close>

text \<open>The resolution of a dotted path as the specification words it: successive mapping
  lookup that fails on a missing key at any part and on a value that is not a mapping.\<close>

fun resolveParts :: "'n val \<Rightarrow> string list \<Rightarrow> 'n val option" where
  "resolveParts v [] = Some v"
| "resolveParts v (part # parts) =
     (case v of
        VMap m \<Rightarrow> (case map_of m part of None \<Rightarrow> None | Some x \<Rightarrow> resolveParts x parts)
      | _ \<Rightarrow> None)"

definition resolvePath :: "'n Document \<Rightarrow> string \<Rightarrow> 'n val option" where
  "resolvePath document path = resolveParts (VMap document) (split_on CHR ''.'' path)"

text \<open>The rule of a top-level group: an \<open>OR\<close> group has a condition and all its conditions
  use \<open>=\<close>; any other group (an \<open>AND\<close> group) has a condition that uses \<open>=\<close>. A query is
  index-eligible when it is not empty and every group satisfies its rule.\<close>

definition groupRule :: "'n TopOperand \<Rightarrow> bool" where
  "groupRule g =
     (if TopOperator g = ''OR''
      then Operands g \<noteq> [] \<and> (\<forall>c \<in> set (Operands g). Operator c = ''='')
      else (\<exists>c \<in> set (Operands g). Operator c = ''=''))"

definition indexEligible :: "'n Query \<Rightarrow> bool" where
  "indexEligible query = (query \<noteq> [] \<and> (\<forall>g \<in> set query. groupRule g))"



section \<open>A concrete library and concrete inputs\<close>

text \<open>
  To run the model a library has to be fixed. \<open>exampleLib\<close> classifies and lower-cases
  the ASCII letters and digits as the Go functions do. The inputs below hold strings only
  and use the operators \<open>=\<close> and \<open>!=\<close> only, so the two numeric functions are never called;
  the words they are analysed from (pizza, pasta, sushi) are words the Snowball stemmer
  returns unchanged, so the stemmer is the identity on them.
\<close>

definition exampleLib :: "int golib" where
  "exampleLib = \<lparr> fmtNum = (\<lambda>n. []), parseFloat = (\<lambda>s. None),
     isLetter = (\<lambda>c. (CHR ''a'' \<le> c \<and> c \<le> CHR ''z'') \<or> (CHR ''A'' \<le> c \<and> c \<le> CHR ''Z'')),
     isNumber = (\<lambda>c. CHR ''0'' \<le> c \<and> c \<le> CHR ''9''),
     toLower = map (\<lambda>c. if CHR ''A'' \<le> c \<and> c \<le> CHR ''Z'' then char_of (of_char c + (32::nat)) else c),
     stem = (\<lambda>s. s) \<rparr>"

definition emptyDB :: "int DB" where
  "emptyDB = \<lparr>store = [], index = [], fts = []\<rparr>"

text \<open>A struct with one string field \<open>name\<close> tagged \<open>objectdb:"textIndex"\<close>.\<close>

definition namedRecord :: "string \<Rightarrow> int GoValue" where
  "namedRecord s = \<lparr>jsonForm = Some [(''name'', VStr s)], structFields = Some [(''textIndex'', Some s)]\<rparr>"

text \<open>A struct with a string field \<open>a.b\<close>, a nested struct \<open>a\<close> with a string field \<open>b\<close>, and
  a string field \<open>z\<close>, none tagged.\<close>

definition twinPathRecord :: "int GoValue" where
  "twinPathRecord =
     \<lparr>jsonForm = Some [(''a.b'', VStr ''1''), (''a'', VMap [(''b'', VStr ''1'')]), (''z'', VStr ''q'')],
      structFields = Some [([], Some ''1''), ([], None), ([], Some ''q'')]\<rparr>"

text \<open>A struct with one untagged field \<open>name\<close> of pointer type, holding nil.\<close>

definition nullFieldRecord :: "int GoValue" where
  "nullFieldRecord = \<lparr>jsonForm = Some [(''name'', VNil)], structFields = Some [([], None)]\<rparr>"



definition nameQuery :: "string \<Rightarrow> int Query" where
  "nameQuery s = [\<lparr>TopOperator = ''AND'',
                   Operands = [\<lparr>Path = ''name'', Operator = ''='', Value = VStr s\<rparr>]\<rparr>]"

text \<open>The states that the inserts of these records lead to, starting from the empty
  database (the theorems below check that they do).\<close>

definition pizzaDB1 :: "int DB" where
  "pizzaDB1 = \<lparr>store = [(''c:d1'', [(''name'', VStr ''pizza''), (''_id'', VStr ''d1'')])],
                index = [(''c:name=pizza'', ''d1'')],
                fts = [(''c:pizza'', ''d1'')]\<rparr>"

definition pizzaDB2 :: "int DB" where
  "pizzaDB2 = \<lparr>store = [(''c:d1'', [(''name'', VStr ''pizza''), (''_id'', VStr ''d1'')]),
                         (''c:d2'', [(''name'', VStr ''pasta''), (''_id'', VStr ''d2'')])],
                index = [(''c:name=pizza'', ''d1''), (''c:name=pasta'', ''d2'')],
                fts = [(''c:pizza'', ''d1''), (''c:pasta'', ''d2'')]\<rparr>"

definition pizzaDB3 :: "int DB" where
  "pizzaDB3 = \<lparr>store = [(''c:d1'', [(''name'', VStr ''pizza''), (''_id'', VStr ''d1'')]),
                         (''c:d2'', [(''name'', VStr ''pasta''), (''_id'', VStr ''d2'')]),
                         (''c:d3'', [(''name'', VStr ''sushi''), (''_id'', VStr ''d3'')])],
                index = [(''c:name=pizza'', ''d1''), (''c:name=pasta'', ''d2''), (''c:name=sushi'', ''d3'')],
                fts = [(''c:pizza'', ''d1''), (''c:pasta'', ''d2''), (''c:sushi'', ''d3'')]\<rparr>"

definition twinDB :: "int DB" where
  "twinDB = \<lparr>store = [(''c:d1'', [(''a.b'', VStr ''1''), (''a'', VMap [(''b'', VStr ''1'')]),
                                   (''z'', VStr ''q''), (''_id'', VStr ''d1'')])],
              index = [(''c:a.b=1'', ''d1''), (''c:z=q'', ''d1'')],
              fts = []\<rparr>"

definition nullDB :: "int DB" where
  "nullDB = \<lparr>store = [(''c:d1'', [(''name'', VNil), (''_id'', VStr ''d1'')])],
              index = [(''c:name=<nil>'', ''d1'')],
              fts = []\<rparr>"



text \<open>A struct with two nested structs \<open>home\<close> and \<open>work\<close>, each holding a struct \<open>address\<close>
  with a string field \<open>city\<close>, and a string field \<open>name\<close>, none tagged; and the state its
  insert leads to.\<close>

definition homeWorkRecord :: "int GoValue" where
  "homeWorkRecord =
     \<lparr>jsonForm = Some [(''home'', VMap [(''address'', VMap [(''city'', VStr ''NY'')])]),
                       (''work'', VMap [(''address'', VMap [(''city'', VStr ''NY'')])]),
                       (''name'', VStr ''q'')],
      structFields = Some [([], None), ([], None), ([], Some ''q'')]\<rparr>"

definition homeWorkDB :: "int DB" where
  "homeWorkDB = \<lparr>store = [(''c:d1'', [(''home'', VMap [(''address'', VMap [(''city'', VStr ''NY'')])]),
                                       (''work'', VMap [(''address'', VMap [(''city'', VStr ''NY'')])]),
                                       (''name'', VStr ''q''), (''_id'', VStr ''d1'')])],
                  index = [(''c:address.city=NY'', ''d1''), (''c:name=q'', ''d1'')],
                  fts = []\<rparr>"

section \<open>Path values\<close>

text \<open>
  C2. Claim: the path-value pairs use the full dotted path from the root, so that a leaf
  under the keys a, b, c yields the path a.b.c, and arrays contribute nothing.
  The code recurses into a nested map with \<open>key\<close> alone as the prefix, so the prefix of
  the enclosing call is lost from depth three on: the leaf under a, b, c is indexed as
  \<open>b.c=x\<close>. (Arrays do contribute nothing.)
\<close>

theorem getPathValues_drops_outer_prefix:
  "getPathValues E [(''a'', VMap [(''b'', VMap [(''c'', VStr ''x'')])])] [] = [''b.c=x'']
   \<and> getPathValues E [(''a'', VMap [(''b'', VStr ''x'')])] [] = [''a.b=x'']
   \<and> getPathValues E [(''tags'', VArr [VStr ''x''])] [] = []"
  by (simp add: buildPathValue_def)

section \<open>The matcher on a missing path\<close>

text \<open>
  C3. Claim: when the resolution of the condition's path fails at any step, the last one
  included, \<open>matchCondition\<close> is false for every operator and every condition value.
  In the code the lookup of the last part never fails: a missing key reads as nil, which
  prints as \<open><nil>\<close>, so \<open>!=\<close> holds against any other value and \<open>=\<close> holds against nil.
\<close>

theorem matchCondition_missing_last_key:
  "resolvePath [(''name'', VStr ''x'')] ''age'' = None
   \<and> matchCondition E [(''name'', VStr ''x'')] \<lparr>Path = ''age'', Operator = ''!='', Value = VStr ''x''\<rparr>
   \<and> matchCondition E [(''name'', VStr ''x'')] \<lparr>Path = ''age'', Operator = ''='', Value = VNil\<rparr>"
  by (simp add: resolvePath_def matchCondition_def getValueFromPath_def EQ_def NE_def)

section \<open>Insert and find by id\<close>

text \<open>
  C9. For every record accepted by \<open>InsertOne\<close> with returned id \<open>d\<close>, \<open>FindOneById\<close> on the
  resulting state returns the normalized form of the record extended with \<open>_id = d\<close>.
\<close>

theorem InsertOne_then_FindOneById:
  assumes "InsertOne E db collectionName ident r = Inr (d, db')"
  shows "\<exists>m. jsonForm r = Some m \<and> d = ident
            \<and> FindOneById db' collectionName d = Inr (AList.update ''_id'' (VStr d) m)"
  using assms
  by (auto simp: InsertOne_def FindOneById_def Let_def update_conv'
           split: option.splits sum.splits if_splits)

text \<open>The insert of the record named pizza under the id d1 into the empty database.\<close>

theorem InsertOne_then_FindOneById_witness:
  "InsertOne exampleLib emptyDB ''c'' ''d1'' (namedRecord ''pizza'') = Inr (''d1'', pizzaDB1)
   \<and> FindOneById pizzaDB1 ''c'' ''d1'' = Inr [(''name'', VStr ''pizza''), (''_id'', VStr ''d1'')]"
proof -
  have ins: "InsertOne exampleLib emptyDB ''c'' ''d1'' (namedRecord ''pizza'') = Inr (''d1'', pizzaDB1)"
    by code_simp
  from InsertOne_then_FindOneById [OF ins] show ?thesis
    using ins by (simp add: namedRecord_def)
qed

section \<open>Delete\<close>

text \<open>
  C4. Claim: after a successful \<open>DeleteOneById(C, d)\<close> no secondary posting list of C holds
  d. When a document yields the same path value twice, the delete empties and removes
  that posting list at the first occurrence, finds it absent at the second, and
  \<open>deleteDocumentFromIndex\<close> returns there, leaving the path values not yet visited
  indexed. The first record has \<open>address.city=NY\<close> twice (under \<open>home\<close> and under \<open>work\<close>,
  the outer key being dropped); the second has \<open>a.b=1\<close> twice (a field named \<open>a.b\<close> and
  the field \<open>b\<close> of the nested \<open>a\<close>). In both the delete succeeds, the document is gone
  from the store, and the posting list of the last field still holds d1.
\<close>

theorem DeleteOneById_leaves_posting:
  "InsertOne exampleLib emptyDB ''c'' ''d1'' homeWorkRecord = Inr (''d1'', homeWorkDB)
   \<and> DeleteOneById exampleLib homeWorkDB ''c'' ''d1''
       = Inr \<lparr>store = [], index = [(''c:name=q'', ''d1'')], fts = []\<rparr>
   \<and> InsertOne exampleLib emptyDB ''c'' ''d1'' twinPathRecord = Inr (''d1'', twinDB)
   \<and> DeleteOneById exampleLib twinDB ''c'' ''d1''
       = Inr \<lparr>store = [], index = [(''c:z=q'', ''d1'')], fts = []\<rparr>"
  by code_simp

text \<open>
  C10. Claim: \<open>DeleteOneById\<close> never panics on a stored document, a top-level null field
  included. \<open>DeleteFromIndex\<close> asks the kind of \<open>reflect.TypeOf\<close> of every top-level value,
  and that type is nil for a null value.
\<close>

theorem DeleteOneById_null_field_panics:
  "InsertOne exampleLib emptyDB ''c'' ''d1'' nullFieldRecord = Inr (''d1'', nullDB)
   \<and> DeleteOneById exampleLib nullDB ''c'' ''d1'' = Inl RuntimePanic"
  by code_simp

section \<open>The planner of FindMany\<close>

lemma classifyLoop_iff:
  "classifyLoop query fallback = (fallback \<or> (\<exists>g \<in> set query. \<not> groupRule g))"
proof (induction query arbitrary: fallback)
  case Nil
  then show ?case by simp
next
  case (Cons g query)
  have rule: "groupRule g
      = (foundEQ (Operands g) \<and> \<not> (TopOperator g = ''OR'' \<and> orHasNonEQ (Operands g)))"
    by (cases "Operands g") (auto simp: groupRule_def foundEQ_def orHasNonEQ_def list_ex_iff EQ_def)
  show ?case
    using Cons.IH rule by (auto simp: Let_def)
qed

lemma fallbackToFullScan_iff: "fallbackToFullScan query = (\<not> indexEligible query)"
  by (cases query)
     (simp_all add: fallbackToFullScan_def indexEligible_def classifyLoop_iff del: classifyLoop.simps)

text \<open>
  C5. \<open>FindMany\<close> evaluates with the index exactly when the query is not empty and every
  top-level group satisfies its rule (an \<open>AND\<close> group has a condition with \<open>=\<close>, an \<open>OR\<close>
  group has a condition and only conditions with \<open>=\<close>); otherwise it scans the collection.
\<close>

theorem FindMany_planner:
  "FindMany E db collectionName query options =
     (if indexEligible query then indexAssisted E db collectionName query options
      else fullScan E db collectionName query options)"
  by (simp add: FindMany_def fallbackToFullScan_iff)

text \<open>An eligible query, and two that are not: the empty query and an empty \<open>OR\<close> group.\<close>

theorem FindMany_planner_witness:
  "indexEligible (nameQuery ''x'') \<and> \<not> indexEligible ([] :: int Query)
   \<and> \<not> indexEligible [\<lparr>TopOperator = ''OR'', Operands = ([] :: int Condition list)\<rparr>]
   \<and> FindMany exampleLib emptyDB ''c'' (nameQuery ''x'') \<lparr>Limit = 0\<rparr>
       = indexAssisted exampleLib emptyDB ''c'' (nameQuery ''x'') \<lparr>Limit = 0\<rparr>
   \<and> FindMany exampleLib emptyDB ''c'' [\<lparr>TopOperator = ''OR'', Operands = []\<rparr>] \<lparr>Limit = 0\<rparr>
       = fullScan exampleLib emptyDB ''c'' [\<lparr>TopOperator = ''OR'', Operands = []\<rparr>] \<lparr>Limit = 0\<rparr>"
  using FindMany_planner [of exampleLib emptyDB "''c''" "nameQuery ''x''" "\<lparr>Limit = 0\<rparr>"]
        FindMany_planner [of exampleLib emptyDB "''c''" "[\<lparr>TopOperator = ''OR'', Operands = []\<rparr>]"
                             "\<lparr>Limit = 0\<rparr>"]
  by (simp add: indexEligible_def groupRule_def nameQuery_def)

text \<open>
  C6. Claim: an absent posting list counts as the empty list, and the empty string is
  never counted nor a candidate. \<open>FindMany\<close> splits the bytes it read without testing
  their length, and the split of the empty string is the list holding the empty string:
  after one insert, the query \<open>name = x\<close>, whose posting list is absent, counts the id
  \<open>""\<close> once and makes it the candidate. With the value \<open><nil>\<close> the nil document loaded
  for that id even matches and is returned.
\<close>

theorem absent_posting_counts_empty_id:
  "InsertOne exampleLib emptyDB ''c'' ''d1'' (namedRecord ''pizza'') = Inr (''d1'', pizzaDB1)
   \<and> map_of (index pizzaDB1) (getIndexKey ''c'' ''name=x'') = None
   \<and> countLoop exampleLib (index pizzaDB1) ''c'' (nameQuery ''x'') ([], 0) = ([('''', 1)], 1)
   \<and> allMatchedIdsFromIndex exampleLib (index pizzaDB1) ''c'' (nameQuery ''x'') = ['''']
   \<and> FindMany exampleLib pizzaDB1 ''c'' (nameQuery ''<nil>'') \<lparr>Limit = 0\<rparr> = [[]]"
  by code_simp

section \<open>Full-text search\<close>







text \<open>
  C8. Claim: tokens without postings are skipped and the result is the intersection of
  the posting lists that are not empty. \<open>fts.Search\<close> takes \<open>len(matchedIds) == 0\<close> for
  "no list seen yet", so after an intersection has come out empty the next list replaces
  it: three documents with one word each, and the search for the three words returns the
  third, although the three posting lists have no id in common.
\<close>

theorem Search_restarts_after_empty_intersection:
  "InsertOne exampleLib emptyDB ''c'' ''d1'' (namedRecord ''pizza'') = Inr (''d1'', pizzaDB1)
   \<and> InsertOne exampleLib pizzaDB1 ''c'' ''d2'' (namedRecord ''pasta'') = Inr (''d2'', pizzaDB2)
   \<and> InsertOne exampleLib pizzaDB2 ''c'' ''d3'' (namedRecord ''sushi'') = Inr (''d3'', pizzaDB3)
   \<and> analyze exampleLib ''pizza pasta sushi'' = [''pizza'', ''pasta'', ''sushi'']
   \<and> map (\<lambda>token. getBytes (fts pizzaDB3) (getIndexKey ''c'' token)) [''pizza'', ''pasta'', ''sushi'']
       = [''d1'', ''d2'', ''d3'']
   \<and> ftsSearch exampleLib (fts pizzaDB3) ''c'' ''pizza pasta sushi'' = [''d3'']
   \<and> Search exampleLib pizzaDB3 ''c'' ''pizza pasta sushi''
       = Inr [[(''name'', VStr ''sushi''), (''_id'', VStr ''d3'')]]"
  by code_simp

section \<open>FindMany against the full scan\<close>
















end
